theory Spec2Isabelle
  imports Main "HOL-Library.Char_ord" "HOL-Library.List_Lexorder" "HOL-Library.Sublist"
begin

section \<open>Data model of \<^verbatim>\<open>main.py\<close>\<close>

text \<open>
  The three pydantic response models. \<open>ModelGAV\<close> is a record with the sixteen fields
  of the class; the field \<^verbatim>\<open>size\<close> is written \<open>size'\<close> because \<open>size\<close> is a constant
  of HOL. \<open>ModelLastModified\<close> and \<open>ModelUpgrade\<close> repeat field names of \<open>ModelGAV\<close>,
  so they are datatypes whose constructor takes the fields in the order of the class.
  Python's \<^verbatim>\<open>str\<close> is \<open>string\<close>, Python's \<^verbatim>\<open>int\<close> is \<open>int\<close>.
\<close>

record ModelGAV =
  group_id :: string
  artifact_id :: string
  artifact_version :: string
  file_name :: string
  major_version :: int
  version_seq :: int
  last_modified :: string
  size' :: int
  sha1 :: string
  signature_exists :: int
  sources_exists :: int
  javadoc_exists :: int
  classifier :: string
  file_extension :: string
  packaging :: string
  name :: string

datatype ModelLastModified = ModelLastModified (lm_last_modified: string)

datatype ModelUpgrade = ModelUpgrade (up_artifact_version: string) (up_last_modified: string)

text \<open>
  Modelled from the spec: the schema of the table \<^verbatim>\<open>gav\<close>. The table is created outside
  this repository; the queries name its columns and the spec (section 3) gives their types:
  sixteen columns, text or integer, none of them NULL. A stored row is a record whose
  fields are the columns (prefix \<open>c_\<close>); the table is the list of its rows in the order
  in which the engine scans them.
\<close>

record gav_row =
  c_group_id :: string
  c_artifact_id :: string
  c_artifact_version :: string
  c_file_name :: string
  c_major_version :: int
  c_version_seq :: int
  c_last_modified :: string
  c_size :: int
  c_sha1 :: string
  c_signature_exists :: int
  c_sources_exists :: int
  c_javadoc_exists :: int
  c_classifier :: string
  c_file_extension :: string
  c_packaging :: string
  c_name :: string

type_synonym gav_table = "gav_row list"

text \<open>A result row of \<^verbatim>\<open>SQL_SELECT_GAV\<close>: a tuple of sixteen values, read by position.\<close>

type_synonym row16 =
  "string \<times> string \<times> string \<times> string \<times> int \<times> int \<times> string \<times> int \<times>
   string \<times> int \<times> int \<times> int \<times> string \<times> string \<times> string \<times> string"

section \<open>Constants of \<^verbatim>\<open>DBMetadata\<close>\<close>

definition MAXLEN_GROUP_ID :: nat where "MAXLEN_GROUP_ID = 254"
definition MAXLEN_ARTIFACT_ID :: nat where "MAXLEN_ARTIFACT_ID = 254"
definition MAXLEN_ARTIFACT_VERSION :: nat where "MAXLEN_ARTIFACT_VERSION = 128"
definition MAXLEN_FILE_NAME :: nat where "MAXLEN_FILE_NAME = 512"
definition PAGE_SIZE :: int where "PAGE_SIZE = 100"
definition PAGE_SIZE_BIG :: int where "PAGE_SIZE_BIG = 1000"

section \<open>What the SQL clauses compute\<close>

text \<open>
  \<^verbatim>\<open>LIMIT n\<close> and \<^verbatim>\<open>OFFSET n\<close> as SQLite evaluates them: a negative limit is no bound
  at all, a negative offset is offset zero.
\<close>

definition sql_limit :: "int \<Rightarrow> 'a list \<Rightarrow> 'a list" where
  "sql_limit n xs = (if n < 0 then xs else take (nat n) xs)"

definition sql_offset :: "int \<Rightarrow> 'a list \<Rightarrow> 'a list" where
  "sql_offset n xs = (if n < 0 then xs else drop (nat n) xs)"

text \<open>
  \<^verbatim>\<open>LIKE\<close> without \<^verbatim>\<open>ESCAPE\<close>: \<^verbatim>\<open>%\<close> in the pattern stands for any run of characters,
  \<^verbatim>\<open>_\<close> for exactly one, and every other character matches itself up to the case of the
  letters A to Z.
\<close>

definition sqlite_tolower :: "char \<Rightarrow> char" where
  "sqlite_tolower c =
     (if CHR ''A'' \<le> c \<and> c \<le> CHR ''Z'' then char_of (of_char c + (32::nat)) else c)"

fun sql_like :: "string \<Rightarrow> string \<Rightarrow> bool" where
  "sql_like [] s = (s = [])"
| "sql_like (p # ps) [] = (p = CHR ''%'' \<and> sql_like ps [])"
| "sql_like (p # ps) (c # cs) =
     (if p = CHR ''%'' then sql_like ps (c # cs) \<or> sql_like (p # ps) cs
      else (p = CHR ''_'' \<or> sqlite_tolower p = sqlite_tolower c) \<and> sql_like ps cs)"

text \<open>
  The aggregate \<^verbatim>\<open>max\<close> over a text column: NULL (here \<open>None\<close>) over no rows, otherwise
  the greatest value in the bytewise order of the strings.
\<close>

definition sql_max :: "string list \<Rightarrow> string option" where
  "sql_max xs = (case xs of [] \<Rightarrow> None | x # ys \<Rightarrow> Some (fold max ys x))"

section \<open>The query catalogue\<close>

text \<open>
  The column list of \<^verbatim>\<open>SQL_SELECT_GAV\<close>, in the order in which the statement names the
  columns.
\<close>

definition SQL_SELECT_GAV :: "gav_row \<Rightarrow> row16" where
  "SQL_SELECT_GAV r =
     (c_group_id r, c_artifact_id r, c_artifact_version r,
      c_file_name r, c_major_version r, c_version_seq r, c_last_modified r,
      c_size r, c_sha1 r, c_signature_exists r, c_sources_exists r, c_javadoc_exists r,
      c_classifier r, c_file_extension r, c_packaging r, c_name r)"

definition SQL_GAV_SELECT_ALL :: "gav_table \<Rightarrow> int \<Rightarrow> int \<Rightarrow> row16 list" where
  "SQL_GAV_SELECT_ALL t lim off = sql_limit lim (sql_offset off (map SQL_SELECT_GAV t))"

definition SQL_GAV_SELECT_FILE_NAME :: "gav_table \<Rightarrow> string \<Rightarrow> row16 list" where
  "SQL_GAV_SELECT_FILE_NAME t fn =
     sql_limit 1 (map SQL_SELECT_GAV (filter (\<lambda>r. c_file_name r = fn) t))"

text \<open>
  An aggregate without \<^verbatim>\<open>GROUP BY\<close> yields exactly one row, also when no stored row
  passes the \<^verbatim>\<open>WHERE\<close> clause; its only column is then NULL.
\<close>

definition SQL_GAV_SELECT_FILE_LAST_MODIFIED :: "gav_table \<Rightarrow> string \<Rightarrow> string option list" where
  "SQL_GAV_SELECT_FILE_LAST_MODIFIED t pat =
     sql_limit 1 [sql_max (map c_last_modified (filter (\<lambda>r. sql_like pat (c_file_name r)) t))]"

definition SQL_GAV_SELECT_GAV :: "gav_table \<Rightarrow> string \<Rightarrow> string \<Rightarrow> string \<Rightarrow> row16 list" where
  "SQL_GAV_SELECT_GAV t g a v =
     sql_limit PAGE_SIZE (map SQL_SELECT_GAV
       (filter (\<lambda>r. c_group_id r = g \<and> c_artifact_id r = a \<and> c_artifact_version r = v) t))"

text \<open>
  \<^verbatim>\<open>SQL_GAV_UPGRADE\<close>, clause by clause. The \<^verbatim>\<open>WHERE\<close> clause keeps the rows of the
  group and artifact with a greater \<^verbatim>\<open>version_seq\<close>. \<^verbatim>\<open>GROUP BY artifact_version\<close> makes
  one row per version among them, the groups coming in the order of their key. The row of
  a group holds the version, \<^verbatim>\<open>max(last_modified)\<close> and, for the \<^verbatim>\<open>ORDER BY\<close> clause, the
  bare column \<^verbatim>\<open>version_seq\<close>, which SQLite reads from the row that holds the maximum (the
  first one scanned, if several do). \<^verbatim>\<open>distinct\<close> drops a row whose two result columns
  repeat an earlier row, \<^verbatim>\<open>ORDER BY\<close> sorts by the third, \<^verbatim>\<open>LIMIT\<close> cuts, and the
  statement returns the two result columns.
\<close>

definition upgrade_where :: "string \<Rightarrow> string \<Rightarrow> int \<Rightarrow> gav_row \<Rightarrow> bool" where
  "upgrade_where g a n r \<longleftrightarrow> c_group_id r = g \<and> c_artifact_id r = a \<and> c_version_seq r > n"

definition max_row :: "gav_row \<Rightarrow> gav_row list \<Rightarrow> gav_row" where
  "max_row r rs =
     fold (\<lambda>x best. if c_last_modified best < c_last_modified x then x else best) rs r"

definition group_row :: "gav_row list \<Rightarrow> string \<Rightarrow> (string \<times> string \<times> int) list" where
  "group_row rows k =
     (case filter (\<lambda>r. c_artifact_version r = k) rows of
        [] \<Rightarrow> []
      | r # rs \<Rightarrow> [(k, c_last_modified (max_row r rs), c_version_seq (max_row r rs))])"

definition group_by_artifact_version :: "gav_row list \<Rightarrow> (string \<times> string \<times> int) list" where
  "group_by_artifact_version rows =
     concat (map (group_row rows) (sort (remdups (map c_artifact_version rows))))"

fun sql_distinct :: "('a \<Rightarrow> 'b) \<Rightarrow> 'b list \<Rightarrow> 'a list \<Rightarrow> 'a list" where
  "sql_distinct f seen [] = []"
| "sql_distinct f seen (x # xs) =
     (if f x \<in> set seen then sql_distinct f seen xs
      else x # sql_distinct f (f x # seen) xs)"

definition upgrade_columns :: "string \<times> string \<times> int \<Rightarrow> string \<times> string" where
  "upgrade_columns x = (fst x, fst (snd x))"

definition upgrade_order_key :: "string \<times> string \<times> int \<Rightarrow> int" where
  "upgrade_order_key x = snd (snd x)"

definition SQL_GAV_UPGRADE_ordered ::
    "gav_table \<Rightarrow> string \<Rightarrow> string \<Rightarrow> int \<Rightarrow> (string \<times> string \<times> int) list" where
  "SQL_GAV_UPGRADE_ordered t g a n =
     sort_key upgrade_order_key
       (sql_distinct upgrade_columns []
         (group_by_artifact_version (filter (upgrade_where g a n) t)))"

definition SQL_GAV_UPGRADE ::
    "gav_table \<Rightarrow> string \<Rightarrow> string \<Rightarrow> int \<Rightarrow> int \<Rightarrow> (string \<times> string) list" where
  "SQL_GAV_UPGRADE t g a n lim =
     map upgrade_columns (sql_limit lim (SQL_GAV_UPGRADE_ordered t g a n))"

section \<open>Exceptions, connections and the row mapper\<close>

text \<open>
  The exceptions a handler can leave with: the \<^verbatim>\<open>HTTPException\<close>s the code raises, the
  rejection of a parameter that breaks the bound declared in the signature (\<^verbatim>\<open>max_length\<close>,
  \<^verbatim>\<open>le\<close>), the \<^verbatim>\<open>OverflowError\<close> of \<^verbatim>\<open>sqlite3\<close> for an integer parameter outside the
  64-bit range, and the \<^verbatim>\<open>ValidationError\<close> of pydantic for a \<^verbatim>\<open>None\<close> in a \<^verbatim>\<open>str\<close> field.
\<close>

datatype exn =
    HTTPException nat string
  | RequestValidationError
  | OverflowError
  | ValidationError

definition sqlite_int64 :: "int \<Rightarrow> bool" where
  "sqlite_int64 i \<longleftrightarrow> - (2 ^ 63) \<le> i \<and> i < 2 ^ 63"

text \<open>
  The state of the process and its surroundings. \<open>db\<close> is the content of the database
  when \<^verbatim>\<open>connect\<close> can open the file and apply its PRAGMAs, and \<open>None\<close> when one of the two
  raises \<^verbatim>\<open>OperationalError\<close>; \<open>pragma_raises\<close> tells, in that case, which one did: \<open>False\<close>
  when \<^verbatim>\<open>sqlite3.connect\<close> could not open the file, \<open>True\<close> when it could and a PRAGMA
  raised afterwards (a locked file). \<open>conns\<close> holds the connections opened so far, each
  one open (\<open>True\<close>) or closed.

  \<open>connect\<close> has one \<^verbatim>\<open>try\<close> around both steps and answers either failure with the 503;
  it does not close the connection that \<^verbatim>\<open>sqlite3.connect\<close> had returned when a PRAGMA
  raises. \<open>connection_close\<close> closes the connection it is given.
\<close>

record world =
  db :: "gav_table option"
  pragma_raises :: bool
  conns :: "bool list"

record connection =
  conn_id :: nat
  conn_table :: gav_table

definition connect :: "world \<Rightarrow> (exn + connection) \<times> world" where
  "connect w =
     (case db w of
        None \<Rightarrow>
          (Inl (HTTPException 503
             ''Database is under maintenance and not available. try again after 2 hours.''),
           if pragma_raises w then w\<lparr>conns := conns w @ [True]\<rparr> else w)
      | Some t \<Rightarrow>
          (Inr \<lparr>conn_id = length (conns w), conn_table = t\<rparr>, w\<lparr>conns := conns w @ [True]\<rparr>))"

definition connection_close :: "connection \<Rightarrow> world \<Rightarrow> world" where
  "connection_close c w = w\<lparr>conns := (conns w)[conn_id c := False]\<rparr>"

definition open_connections :: "world \<Rightarrow> nat" where
  "open_connections w = length (filter id (conns w))"

definition fetchone :: "'a list \<Rightarrow> 'a option" where
  "fetchone rows = (case rows of [] \<Rightarrow> None | r # _ \<Rightarrow> Some r)"

fun gav2item :: "row16 \<Rightarrow> ModelGAV" where
  "gav2item (r0, r1, r2, r3, r4, r5, r6, r7, r8, r9, r10, r11, r12, r13, r14, r15) =
     \<lparr>group_id = r0, artifact_id = r1, artifact_version = r2, file_name = r3,
      major_version = r4, version_seq = r5, last_modified = r6, size' = r7, sha1 = r8,
      signature_exists = r9, sources_exists = r10, javadoc_exists = r11,
      classifier = r12, file_extension = r13, packaging = r14, name = r15\<rparr>"

section \<open>\<^verbatim>\<open>os.path.splitext\<close>\<close>

text \<open>
  The handler of \<^verbatim>\<open>/api/filelastmodified\<close> calls \<^verbatim>\<open>os.path.splitext\<close> of the Python
  library (POSIX flavour: separator \<^verbatim>\<open>/\<close>, no alternative separator). It cuts at the
  last dot after the last separator, unless only dots stand between that separator and
  the dot: leading dots belong to the name, so that \<^verbatim>\<open>.jar\<close> has the root \<^verbatim>\<open>.jar\<close> and
  no extension. \<open>rfind\<close> is \<^verbatim>\<open>str.rfind\<close> for one character: the last index, or \<open>-1\<close>.
\<close>

fun rfind :: "string \<Rightarrow> char \<Rightarrow> int" where
  "rfind [] c = - 1"
| "rfind (x # xs) c =
     (if rfind xs c \<ge> 0 then rfind xs c + 1 else if x = c then 0 else - 1)"

function splitext_loop :: "string \<Rightarrow> int \<Rightarrow> int \<Rightarrow> string \<times> string" where
  "splitext_loop p filenameIndex dotIndex =
     (if filenameIndex < dotIndex then
        (if take 1 (drop (nat filenameIndex) p) \<noteq> ''.''
         then (take (nat dotIndex) p, drop (nat dotIndex) p)
         else splitext_loop p (filenameIndex + 1) dotIndex)
      else (p, []))"
  by pat_completeness auto
termination
  by (relation "measure (\<lambda>(p, filenameIndex, dotIndex). nat (dotIndex - filenameIndex))") auto

declare splitext_loop.simps [simp del]

definition splitext :: "string \<Rightarrow> string \<times> string" where
  "splitext p =
     (let sepIndex = rfind p CHR ''/'';
          dotIndex = rfind p CHR ''.''
      in if dotIndex > sepIndex then splitext_loop p (sepIndex + 1) dotIndex else (p, []))"

section \<open>The route handlers\<close>

text \<open>
  Each handler takes its parameters and the world and returns what it returns or raises,
  with the world it leaves. The bounds declared in a signature (\<^verbatim>\<open>max_length\<close>, \<^verbatim>\<open>le\<close>)
  are checked first, before the body runs. A query parameter is \<open>None\<close> when the request
  omits it, and then has the default of the signature. Two pairs of handlers share a name
  in the source: the second \<^verbatim>\<open>root\<close> (route \<^verbatim>\<open>/api/\<close>) is \<open>root_api\<close> here, and the second
  \<^verbatim>\<open>gav\<close> (route \<^verbatim>\<open>/api/gav/{group_id}/{artifact_id}/{artifact_version}\<close>) is
  \<open>gav_coordinates\<close>. The parameter \<^verbatim>\<open>file_name\<close> is written \<open>fname\<close>, since
  \<open>file_name\<close> is a field of \<open>ModelGAV\<close>, and the three coordinates are \<open>g\<close>, \<open>a\<close>
  and \<open>v\<close>. Cursors hold no state of their own here: \<^verbatim>\<open>execute\<close> is the query
  of the catalogue and \<^verbatim>\<open>fetchall\<close> is its list of rows.
\<close>

definition root :: "world \<Rightarrow> (exn + string) \<times> world" where
  "root w = (Inr ''Server is up and running..'', w)"

definition root_api :: "world \<Rightarrow> (exn + string) \<times> world" where
  "root_api w = (Inr ''API Server is up and running..'', w)"

definition gav_file_name :: "string \<Rightarrow> world \<Rightarrow> (exn + ModelGAV) \<times> world" where
  "gav_file_name fname w =
     (if \<not> length fname \<le> MAXLEN_FILE_NAME then (Inl RequestValidationError, w)
      else case connect w of
        (Inl e, w1) \<Rightarrow> (Inl e, w1)
      | (Inr connection, w1) \<Rightarrow>
          (case fetchone (SQL_GAV_SELECT_FILE_NAME (conn_table connection) fname) of
             None \<Rightarrow>
               (Inl (HTTPException 404 (''File '' @ fname @ '' not found'')), w1)
           | Some row \<Rightarrow> (Inr (gav2item row), connection_close connection w1)))"

definition gav_file_last_modified ::
    "string \<Rightarrow> world \<Rightarrow> (exn + ModelLastModified) \<times> world" where
  "gav_file_last_modified fname w =
     (if \<not> length fname \<le> MAXLEN_FILE_NAME then (Inl RequestValidationError, w)
      else let filename_without_extension = fst (splitext fname) in
        if length filename_without_extension < 1
        then (Inl (HTTPException 400 (''File name is too short: '' @ fname)), w)
        else case connect w of
          (Inl e, w1) \<Rightarrow> (Inl e, w1)
        | (Inr connection, w1) \<Rightarrow>
            (case fetchone (SQL_GAV_SELECT_FILE_LAST_MODIFIED (conn_table connection)
                              (filename_without_extension @ ''%'')) of
               None \<Rightarrow>
                 (Inl (HTTPException 404 (''File '' @ fname @ '' not found'')), w1)
             | Some None \<Rightarrow> (Inl ValidationError, w1)
             | Some (Some row0) \<Rightarrow>
                 (Inr (ModelLastModified row0), connection_close connection w1)))"

definition gav :: "int option \<Rightarrow> int option \<Rightarrow> world \<Rightarrow> (exn + ModelGAV list) \<times> world" where
  "gav skip_param limit_param w =
     (let skip = (case skip_param of None \<Rightarrow> 0 | Some s \<Rightarrow> s);
          limit = (case limit_param of None \<Rightarrow> PAGE_SIZE | Some l \<Rightarrow> l)
      in if \<not> limit \<le> PAGE_SIZE then (Inl RequestValidationError, w)
      else case connect w of
        (Inl e, w1) \<Rightarrow> (Inl e, w1)
      | (Inr connection, w1) \<Rightarrow>
          if \<not> (sqlite_int64 limit \<and> sqlite_int64 skip) then (Inl OverflowError, w1)
          else let rows = SQL_GAV_SELECT_ALL (conn_table connection) limit skip in
            if rows = [] then (Inl (HTTPException 404 ''No items found''), w1)
            else (Inr (map gav2item rows), connection_close connection w1))"

definition gav_coordinates ::
    "string \<Rightarrow> string \<Rightarrow> string \<Rightarrow> world \<Rightarrow> (exn + ModelGAV list) \<times> world" where
  "gav_coordinates g a v w =
     (if \<not> (length g \<le> MAXLEN_GROUP_ID \<and> length a \<le> MAXLEN_ARTIFACT_ID
            \<and> length v \<le> MAXLEN_ARTIFACT_VERSION)
      then (Inl RequestValidationError, w)
      else let gav_str = g @ ''/'' @ a @ ''/'' @ v in
        case connect w of
          (Inl e, w1) \<Rightarrow> (Inl e, w1)
        | (Inr connection, w1) \<Rightarrow>
            let rows = SQL_GAV_SELECT_GAV (conn_table connection) g a v in
            if rows = [] then (Inl (HTTPException 404 (''GAV '' @ gav_str @ '' not found'')), w1)
            else (Inr (map gav2item rows), connection_close connection w1))"

text \<open>
  The second part of both upgrade handlers: the query for newer versions, from the base
  item on. The version number it binds was read from the table; \<^verbatim>\<open>limit\<close> comes from
  the request.
\<close>

definition newer_versions ::
    "connection \<Rightarrow> ModelGAV \<Rightarrow> int \<Rightarrow> string \<Rightarrow> world \<Rightarrow> (exn + ModelUpgrade list) \<times> world" where
  "newer_versions connection item limit detail w1 =
     (if \<not> sqlite_int64 limit then (Inl OverflowError, w1)
      else let rows = SQL_GAV_UPGRADE (conn_table connection)
                        (group_id item) (artifact_id item) (version_seq item) limit in
        if rows = [] then (Inl (HTTPException 204 detail), w1)
        else (Inr (map (\<lambda>row. ModelUpgrade (fst row) (snd row)) rows),
              connection_close connection w1))"

definition file_upgrade ::
    "string \<Rightarrow> int option \<Rightarrow> world \<Rightarrow> (exn + ModelUpgrade list) \<times> world" where
  "file_upgrade fname limit_param w =
     (let limit = (case limit_param of None \<Rightarrow> PAGE_SIZE_BIG | Some l \<Rightarrow> l)
      in if \<not> (length fname \<le> MAXLEN_FILE_NAME \<and> limit \<le> PAGE_SIZE_BIG)
      then (Inl RequestValidationError, w)
      else case connect w of
        (Inl e, w1) \<Rightarrow> (Inl e, w1)
      | (Inr connection, w1) \<Rightarrow>
          (case fetchone (SQL_GAV_SELECT_FILE_NAME (conn_table connection) fname) of
             None \<Rightarrow>
               (Inl (HTTPException 404 (''File '' @ fname @ '' not found'')), w1)
           | Some row \<Rightarrow>
               newer_versions connection (gav2item row) limit
                 (''No newer versions found for file '' @ fname) w1))"

definition gav_upgrade ::
    "string \<Rightarrow> string \<Rightarrow> string \<Rightarrow> int option \<Rightarrow> world \<Rightarrow> (exn + ModelUpgrade list) \<times> world" where
  "gav_upgrade g a v limit_param w =
     (let limit = (case limit_param of None \<Rightarrow> PAGE_SIZE_BIG | Some l \<Rightarrow> l)
      in if \<not> (length g \<le> MAXLEN_GROUP_ID \<and> length a \<le> MAXLEN_ARTIFACT_ID
               \<and> length v \<le> MAXLEN_ARTIFACT_VERSION \<and> limit \<le> PAGE_SIZE_BIG)
      then (Inl RequestValidationError, w)
      else let gav_str = g @ ''/'' @ a @ ''/'' @ v in
        case connect w of
          (Inl e, w1) \<Rightarrow> (Inl e, w1)
        | (Inr connection, w1) \<Rightarrow>
            (case fetchone (SQL_GAV_SELECT_GAV (conn_table connection) g a v) of
               None \<Rightarrow> (Inl (HTTPException 404 (''GAV '' @ gav_str @ '' not found'')), w1)
             | Some row \<Rightarrow>
                 newer_versions connection (gav2item row) limit
                   (''No newer versions found for GAV '' @ gav_str) w1))"

section \<open>Requests and responses\<close>

text \<open>
  The framework turns what a handler returns or raises into a response: 200 with the
  returned value, the status and detail of an \<^verbatim>\<open>HTTPException\<close>, 422 for a rejected
  parameter, 500 for any other exception. Where the status allows no body (below 200,
  204, 205 and 304) the response to an \<^verbatim>\<open>HTTPException\<close> carries the status alone and
  the detail is dropped.
\<close>

datatype body =
    NoBody
  | Message string
  | Detail string
  | Item ModelGAV
  | LastModified ModelLastModified
  | Items "ModelGAV list"
  | Upgrades "ModelUpgrade list"

datatype response = Response (status: nat) (content: body)

datatype request =
    GetRoot
  | GetApiRoot
  | GetFile string
  | GetFileLastModified string
  | GetGav "int option" "int option"
  | GetGavCoordinates string string string
  | GetFileUpgrade string "int option"
  | GetGavUpgrade string string string "int option"

definition is_body_allowed_for_status_code :: "nat \<Rightarrow> bool" where
  "is_body_allowed_for_status_code code \<longleftrightarrow>
     \<not> (code < 200 \<or> code = 204 \<or> code = 205 \<or> code = 304)"

fun error_response :: "exn \<Rightarrow> response" where
  "error_response (HTTPException code detail) =
     (if is_body_allowed_for_status_code code then Response code (Detail detail)
      else Response code NoBody)"
| "error_response RequestValidationError = Response 422 (Detail ''Unprocessable Entity'')"
| "error_response OverflowError = Response 500 (Detail ''Internal Server Error'')"
| "error_response ValidationError = Response 500 (Detail ''Internal Server Error'')"

definition reply :: "('a \<Rightarrow> body) \<Rightarrow> (exn + 'a) \<times> world \<Rightarrow> response \<times> world" where
  "reply f p =
     (case fst p of Inl e \<Rightarrow> error_response e | Inr x \<Rightarrow> Response 200 (f x), snd p)"

fun handle :: "request \<Rightarrow> world \<Rightarrow> response \<times> world" where
  "handle GetRoot w = reply Message (root w)"
| "handle GetApiRoot w = reply Message (root_api w)"
| "handle (GetFile fname) w = reply Item (gav_file_name fname w)"
| "handle (GetFileLastModified fname) w =
     reply LastModified (gav_file_last_modified fname w)"
| "handle (GetGav skip limit) w = reply Items (gav skip limit w)"
| "handle (GetGavCoordinates g a v) w = reply Items (gav_coordinates g a v w)"
| "handle (GetFileUpgrade fname limit) w = reply Upgrades (file_upgrade fname limit w)"
| "handle (GetGavUpgrade g a v limit) w = reply Upgrades (gav_upgrade g a v limit w)"

section \<open>An example dataset\<close>

text \<open>
  The dataset of the scenarios of the spec: \<^verbatim>\<open>example-1.0.jar\<close> with sequence number 5,
  \<^verbatim>\<open>example-2.0.jar\<close> with sequence number 8, and a version 3.0 that has two files.
\<close>

definition example_row :: "string \<Rightarrow> string \<Rightarrow> int \<Rightarrow> string \<Rightarrow> gav_row" where
  "example_row v f s lm =
     \<lparr>c_group_id = ''com.example'', c_artifact_id = ''example'', c_artifact_version = v,
      c_file_name = f, c_major_version = 1, c_version_seq = s, c_last_modified = lm,
      c_size = 1024, c_sha1 = ''da39a3ee'', c_signature_exists = 1, c_sources_exists = 0,
      c_javadoc_exists = 0, c_classifier = [], c_file_extension = ''jar'',
      c_packaging = ''jar'', c_name = ''Example''\<rparr>"

definition example_table :: gav_table where
  "example_table =
     [example_row ''1.0'' ''example-1.0.jar'' 5 ''2023-06-01'',
      example_row ''2.0'' ''example-2.0.jar'' 8 ''2024-01-01'',
      example_row ''3.0'' ''example-3.0.jar'' 9 ''2024-02-01'',
      example_row ''3.0'' ''example-3.0-sources.jar'' 9 ''2024-03-01'']"

definition example_world :: world where
  "example_world = \<lparr>db = Some example_table, pragma_raises = False, conns = []\<rparr>"

text \<open>A table of 101 rows, one more than \<^verbatim>\<open>PAGE_SIZE\<close>.\<close>

definition page_table :: gav_table where
  "page_table = replicate 101 (example_row ''1.0'' ''example-1.0.jar'' 5 ''2023-06-01'')"

definition page_world :: world where
  "page_world = \<lparr>db = Some page_table, pragma_raises = False, conns = []\<rparr>"

text \<open>
  Two files whose names differ in one character, an underscore in the older one.
\<close>

definition like_table :: gav_table where
  "like_table =
     [example_row ''1.0'' ''akka_2.13-1.0.jar'' 1 ''2020-01-01'',
      example_row ''1.0'' ''akka-2.13-1.0.jar'' 1 ''2022-01-01'']"

text \<open>The example dataset behind a lock: the file opens and a PRAGMA raises.\<close>

definition locked_world :: world where
  "locked_world = \<lparr>db = None, pragma_raises = True, conns = []\<rparr>"

definition like_world :: world where
  "like_world = \<lparr>db = Some like_table, pragma_raises = False, conns = []\<rparr>"

section \<open>Basic facts\<close>

lemma connect_None:
  "db w = None \<Longrightarrow> connect w =
     (Inl (HTTPException 503
        ''Database is under maintenance and not available. try again after 2 hours.''),
      if pragma_raises w then w\<lparr>conns := conns w @ [True]\<rparr> else w)"
  by (simp add: connect_def)

lemma body_allowed_codes [simp]:
  "is_body_allowed_for_status_code 400" "is_body_allowed_for_status_code 404"
  "is_body_allowed_for_status_code 503" "\<not> is_body_allowed_for_status_code 204"
  by (simp_all add: is_body_allowed_for_status_code_def)

lemma status_error_response_HTTPException [simp]:
  "status (error_response (HTTPException code detail)) = code"
  by simp

lemma connect_Some:
  "db w = Some t \<Longrightarrow> connect w =
     (Inr \<lparr>conn_id = length (conns w), conn_table = t\<rparr>, w\<lparr>conns := conns w @ [True]\<rparr>)"
  by (simp add: connect_def)

lemma fst_reply:
  "fst (reply f p) = (case fst p of Inl e \<Rightarrow> error_response e | Inr x \<Rightarrow> Response 200 (f x))"
  by (simp add: reply_def)

lemma snd_reply: "snd (reply f p) = snd p"
  by (simp add: reply_def)

lemma sql_limit_1: "sql_limit 1 xs = take 1 xs"
  by (simp add: sql_limit_def)

lemma sql_limit_length: "0 \<le> n \<Longrightarrow> length (sql_limit n xs) \<le> nat n"
  by (simp add: sql_limit_def)

lemma sql_limit_subset: "set (sql_limit n xs) \<subseteq> set xs"
  by (auto simp: sql_limit_def dest: in_set_takeD)

lemma sql_limit_empty: "sql_limit n xs = [] \<longleftrightarrow> xs = [] \<or> n = 0"
  by (auto simp: sql_limit_def)

lemma gav2item_select:
  "gav2item (SQL_SELECT_GAV r) =
     \<lparr>group_id = c_group_id r, artifact_id = c_artifact_id r,
      artifact_version = c_artifact_version r, file_name = c_file_name r,
      major_version = c_major_version r, version_seq = c_version_seq r,
      last_modified = c_last_modified r, size' = c_size r, sha1 = c_sha1 r,
      signature_exists = c_signature_exists r, sources_exists = c_sources_exists r,
      javadoc_exists = c_javadoc_exists r, classifier = c_classifier r,
      file_extension = c_file_extension r, packaging = c_packaging r, name = c_name r\<rparr>"
  by (simp add: SQL_SELECT_GAV_def)

section \<open>Lookup by file name\<close>

lemma select_file_name_present:
  assumes "fn \<in> c_file_name ` set t"
  shows "\<exists>r \<in> set t. c_file_name r = fn \<and> SQL_GAV_SELECT_FILE_NAME t fn = [SQL_SELECT_GAV r]"
proof -
  let ?m = "filter (\<lambda>r. c_file_name r = fn) t"
  from assms have "?m \<noteq> []" by (auto simp: filter_empty_conv)
  then obtain r rs where m: "?m = r # rs" by (cases ?m) auto
  then have "r \<in> set ?m" by simp
  then have "r \<in> set t" "c_file_name r = fn" by auto
  moreover have "SQL_GAV_SELECT_FILE_NAME t fn = [SQL_SELECT_GAV r]"
    by (simp add: SQL_GAV_SELECT_FILE_NAME_def sql_limit_1 m)
  ultimately show ?thesis by blast
qed

lemma select_file_name_absent:
  "fn \<notin> c_file_name ` set t \<Longrightarrow> SQL_GAV_SELECT_FILE_NAME t fn = []"
  by (auto simp: SQL_GAV_SELECT_FILE_NAME_def sql_limit_1 filter_empty_conv)

lemma gav_file_name_found:
  assumes "db w = Some t" "length fn \<le> MAXLEN_FILE_NAME"
    "SQL_GAV_SELECT_FILE_NAME t fn = row # rest"
  shows "fst (handle (GetFile fn) w) = Response 200 (Item (gav2item row))"
  using assms by (simp add: fst_reply gav_file_name_def connect_Some fetchone_def)

text \<open>
  Claim C6. For a file name \<open>fn\<close> that some stored row has, the statement
  \<^verbatim>\<open>SQL_GAV_SELECT_FILE_NAME\<close> returns exactly one row, a row \<open>r\<close> of the table whose
  \<^verbatim>\<open>file_name\<close> is \<open>fn\<close>, and the mapped record has \<open>fn\<close> in its field \<open>file_name\<close>.
  The route \<^verbatim>\<open>GET /api/file/{file_name}\<close> answers 200 with that one record whenever the
  request reaches the query: the database can be opened and the name keeps the declared
  \<^verbatim>\<open>max_length\<close>.
\<close>

theorem by_file_name_present:
  assumes "fn \<in> c_file_name ` set t"
  shows "\<exists>r \<in> set t. c_file_name r = fn
            \<and> SQL_GAV_SELECT_FILE_NAME t fn = [SQL_SELECT_GAV r]
            \<and> file_name (gav2item (SQL_SELECT_GAV r)) = fn
            \<and> (db w = Some t \<and> length fn \<le> MAXLEN_FILE_NAME \<longrightarrow>
                 fst (handle (GetFile fn) w) = Response 200 (Item (gav2item (SQL_SELECT_GAV r))))"
proof -
  from select_file_name_present[OF assms] obtain r where
    r: "r \<in> set t" "c_file_name r = fn" "SQL_GAV_SELECT_FILE_NAME t fn = [SQL_SELECT_GAV r]"
    by blast
  have f: "file_name (gav2item (SQL_SELECT_GAV r)) = fn"
    using r(2) by (simp add: gav2item_select)
  have "fst (handle (GetFile fn) w) = Response 200 (Item (gav2item (SQL_SELECT_GAV r)))"
    if "db w = Some t \<and> length fn \<le> MAXLEN_FILE_NAME"
    using that gav_file_name_found[of w t fn] r(3) by simp
  with r f show ?thesis by blast
qed

theorem by_file_name_present_witness:
  "''example-2.0.jar'' \<in> c_file_name ` set example_table
   \<and> db example_world = Some example_table
   \<and> length ''example-2.0.jar'' \<le> MAXLEN_FILE_NAME
   \<and> (\<exists>r \<in> set example_table. c_file_name r = ''example-2.0.jar''
        \<and> SQL_GAV_SELECT_FILE_NAME example_table ''example-2.0.jar'' = [SQL_SELECT_GAV r]
        \<and> fst (handle (GetFile ''example-2.0.jar'') example_world) =
            Response 200 (Item (gav2item (SQL_SELECT_GAV r))))"
proof -
  have h: "''example-2.0.jar'' \<in> c_file_name ` set example_table"
    by (simp add: example_table_def example_row_def)
  have d: "db example_world = Some example_table" by (simp add: example_world_def)
  have l: "length ''example-2.0.jar'' \<le> MAXLEN_FILE_NAME" by (simp add: MAXLEN_FILE_NAME_def)
  from by_file_name_present[OF h, of example_world] d l h show ?thesis by blast
qed

section \<open>Lookup by coordinates\<close>

lemma gav_coordinates_found:
  assumes "db w = Some t" "length g \<le> MAXLEN_GROUP_ID" "length a \<le> MAXLEN_ARTIFACT_ID"
    "length v \<le> MAXLEN_ARTIFACT_VERSION" "SQL_GAV_SELECT_GAV t g a v \<noteq> []"
  shows "fst (handle (GetGavCoordinates g a v) w) =
           Response 200 (Items (map gav2item (SQL_GAV_SELECT_GAV t g a v)))"
  using assms by (simp add: fst_reply gav_coordinates_def connect_Some Let_def)

text \<open>
  Claim C8. For a triple \<open>(g, a, v)\<close> that some stored row has, the statement
  \<^verbatim>\<open>SQL_GAV_SELECT_GAV\<close> returns at least one row and at most 100; every returned row is
  a row of the table and its mapped record has \<open>g\<close>, \<open>a\<close> and \<open>v\<close> in its three
  coordinate fields. The route \<^verbatim>\<open>GET /api/gav/{group_id}/{artifact_id}/{artifact_version}\<close>
  answers 200 with these records whenever the request reaches the query: the database can
  be opened and the three segments keep their declared \<^verbatim>\<open>max_length\<close>.
\<close>

theorem by_gav_present:
  assumes "\<exists>r \<in> set t. c_group_id r = g \<and> c_artifact_id r = a \<and> c_artifact_version r = v"
  shows "SQL_GAV_SELECT_GAV t g a v \<noteq> []
       \<and> length (SQL_GAV_SELECT_GAV t g a v) \<le> 100
       \<and> (\<forall>row \<in> set (SQL_GAV_SELECT_GAV t g a v).
            row \<in> SQL_SELECT_GAV ` set t \<and> group_id (gav2item row) = g
            \<and> artifact_id (gav2item row) = a \<and> artifact_version (gav2item row) = v)
       \<and> (db w = Some t \<and> length g \<le> MAXLEN_GROUP_ID \<and> length a \<le> MAXLEN_ARTIFACT_ID
            \<and> length v \<le> MAXLEN_ARTIFACT_VERSION \<longrightarrow>
          fst (handle (GetGavCoordinates g a v) w) =
            Response 200 (Items (map gav2item (SQL_GAV_SELECT_GAV t g a v))))"
proof -
  let ?m = "filter (\<lambda>r. c_group_id r = g \<and> c_artifact_id r = a \<and> c_artifact_version r = v) t"
  have q: "SQL_GAV_SELECT_GAV t g a v = sql_limit 100 (map SQL_SELECT_GAV ?m)"
    by (simp add: SQL_GAV_SELECT_GAV_def PAGE_SIZE_def)
  from assms have "?m \<noteq> []" by (auto simp: filter_empty_conv)
  then have ne: "SQL_GAV_SELECT_GAV t g a v \<noteq> []"
    by (simp add: q sql_limit_empty)
  have len: "length (SQL_GAV_SELECT_GAV t g a v) \<le> 100"
    using sql_limit_length[of 100 "map SQL_SELECT_GAV ?m"] by (simp add: q)
  have rows: "row \<in> SQL_SELECT_GAV ` set t \<and> group_id (gav2item row) = g
            \<and> artifact_id (gav2item row) = a \<and> artifact_version (gav2item row) = v"
    if "row \<in> set (SQL_GAV_SELECT_GAV t g a v)" for row
  proof -
    from that have "row \<in> set (map SQL_SELECT_GAV ?m)"
      using sql_limit_subset[of 100 "map SQL_SELECT_GAV ?m"] by (auto simp: q)
    then obtain r where "r \<in> set ?m" "row = SQL_SELECT_GAV r" by auto
    then show ?thesis by (auto simp: gav2item_select)
  qed
  have "fst (handle (GetGavCoordinates g a v) w) =
            Response 200 (Items (map gav2item (SQL_GAV_SELECT_GAV t g a v)))"
    if "db w = Some t \<and> length g \<le> MAXLEN_GROUP_ID \<and> length a \<le> MAXLEN_ARTIFACT_ID
            \<and> length v \<le> MAXLEN_ARTIFACT_VERSION"
    using that ne gav_coordinates_found[of w t g a v] by simp
  with ne len rows show ?thesis by blast
qed

theorem by_gav_present_witness:
  "(\<exists>r \<in> set example_table. c_group_id r = ''com.example'' \<and> c_artifact_id r = ''example''
       \<and> c_artifact_version r = ''3.0'')
   \<and> db example_world = Some example_table
   \<and> length ''com.example'' \<le> MAXLEN_GROUP_ID \<and> length ''example'' \<le> MAXLEN_ARTIFACT_ID
   \<and> length ''3.0'' \<le> MAXLEN_ARTIFACT_VERSION
   \<and> SQL_GAV_SELECT_GAV example_table ''com.example'' ''example'' ''3.0'' \<noteq> []
   \<and> length (SQL_GAV_SELECT_GAV example_table ''com.example'' ''example'' ''3.0'') \<le> 100
   \<and> fst (handle (GetGavCoordinates ''com.example'' ''example'' ''3.0'') example_world) =
       Response 200 (Items (map gav2item
         (SQL_GAV_SELECT_GAV example_table ''com.example'' ''example'' ''3.0'')))"
proof -
  have h: "\<exists>r \<in> set example_table. c_group_id r = ''com.example''
      \<and> c_artifact_id r = ''example'' \<and> c_artifact_version r = ''3.0''"
    by (simp add: example_table_def example_row_def)
  have d: "db example_world = Some example_table" by (simp add: example_world_def)
  have l: "length ''com.example'' \<le> MAXLEN_GROUP_ID" "length ''example'' \<le> MAXLEN_ARTIFACT_ID"
    "length ''3.0'' \<le> MAXLEN_ARTIFACT_VERSION"
    by (simp_all add: MAXLEN_GROUP_ID_def MAXLEN_ARTIFACT_ID_def MAXLEN_ARTIFACT_VERSION_def)
  from by_gav_present[OF h, of example_world] d l h show ?thesis by blast
qed


section \<open>The upgrade routes\<close>

lemma file_upgrade_absent:
  assumes "db w = Some t" "length fn \<le> MAXLEN_FILE_NAME"
    "(case limit_param of None \<Rightarrow> PAGE_SIZE_BIG | Some l \<Rightarrow> l) \<le> PAGE_SIZE_BIG"
    "fn \<notin> c_file_name ` set t"
  shows "fst (handle (GetFileUpgrade fn limit_param) w) =
           Response 404 (Detail (''File '' @ fn @ '' not found''))"
  using assms
  by (simp add: fst_reply file_upgrade_def connect_Some fetchone_def select_file_name_absent
      Let_def)

lemma file_upgrade_no_newer:
  assumes "db w = Some t" "length fn \<le> MAXLEN_FILE_NAME"
    "limit = (case limit_param of None \<Rightarrow> PAGE_SIZE_BIG | Some l \<Rightarrow> l)"
    "limit \<le> PAGE_SIZE_BIG" "sqlite_int64 limit"
    "fetchone (SQL_GAV_SELECT_FILE_NAME t fn) = Some row"
    "SQL_GAV_UPGRADE t (group_id (gav2item row)) (artifact_id (gav2item row))
       (version_seq (gav2item row)) limit = []"
  shows "fst (handle (GetFileUpgrade fn limit_param) w) =
           Response 204 NoBody"
  using assms
  by (simp add: fst_reply file_upgrade_def connect_Some newer_versions_def Let_def)

lemma select_gav_absent:
  "\<forall>r \<in> set t. \<not> (c_group_id r = g \<and> c_artifact_id r = a \<and> c_artifact_version r = v)
   \<Longrightarrow> SQL_GAV_SELECT_GAV t g a v = []"
  by (auto simp: SQL_GAV_SELECT_GAV_def sql_limit_empty filter_empty_conv)

lemma gav_upgrade_absent:
  assumes "db w = Some t" "length g \<le> MAXLEN_GROUP_ID" "length a \<le> MAXLEN_ARTIFACT_ID"
    "length v \<le> MAXLEN_ARTIFACT_VERSION"
    "(case limit_param of None \<Rightarrow> PAGE_SIZE_BIG | Some l \<Rightarrow> l) \<le> PAGE_SIZE_BIG"
    "\<forall>r \<in> set t. \<not> (c_group_id r = g \<and> c_artifact_id r = a \<and> c_artifact_version r = v)"
  shows "fst (handle (GetGavUpgrade g a v limit_param) w) =
           Response 404 (Detail (''GAV '' @ g @ ''/'' @ a @ ''/'' @ v @ '' not found''))"
  using assms
  by (simp add: fst_reply gav_upgrade_def connect_Some fetchone_def select_gav_absent Let_def)

lemma gav_upgrade_no_newer:
  assumes "db w = Some t" "length g \<le> MAXLEN_GROUP_ID" "length a \<le> MAXLEN_ARTIFACT_ID"
    "length v \<le> MAXLEN_ARTIFACT_VERSION"
    "limit = (case limit_param of None \<Rightarrow> PAGE_SIZE_BIG | Some l \<Rightarrow> l)"
    "limit \<le> PAGE_SIZE_BIG" "sqlite_int64 limit"
    "fetchone (SQL_GAV_SELECT_GAV t g a v) = Some row"
    "SQL_GAV_UPGRADE t (group_id (gav2item row)) (artifact_id (gav2item row))
       (version_seq (gav2item row)) limit = []"
  shows "fst (handle (GetGavUpgrade g a v limit_param) w) =
           Response 204 NoBody"
  using assms
  by (simp add: fst_reply gav_upgrade_def connect_Some newer_versions_def Let_def)

text \<open>
  Claim C9. The two upgrade routes, for a request that passes the declared bounds and a
  database that can be opened: when no stored row has the file name (or the three
  coordinates) the response is 404; when the base record is found and the statement
  \<^verbatim>\<open>SQL_GAV_UPGRADE\<close>, run with the group, artifact and sequence number of that record
  and the limit of the request, returns no rows, the response is 204.
\<close>

theorem upgrade_404_204:
  assumes "db w = Some t"
    and "limit = (case limit_param of None \<Rightarrow> PAGE_SIZE_BIG | Some l \<Rightarrow> l)"
    and "limit \<le> PAGE_SIZE_BIG"
    and "length fn \<le> MAXLEN_FILE_NAME"
    and "length g \<le> MAXLEN_GROUP_ID" "length a \<le> MAXLEN_ARTIFACT_ID"
      "length v \<le> MAXLEN_ARTIFACT_VERSION"
  shows "(fn \<notin> c_file_name ` set t \<longrightarrow>
            status (fst (handle (GetFileUpgrade fn limit_param) w)) = 404)
       \<and> (sqlite_int64 limit \<and> fetchone (SQL_GAV_SELECT_FILE_NAME t fn) = Some row
            \<and> SQL_GAV_UPGRADE t (group_id (gav2item row)) (artifact_id (gav2item row))
                 (version_seq (gav2item row)) limit = [] \<longrightarrow>
            status (fst (handle (GetFileUpgrade fn limit_param) w)) = 204)
       \<and> ((\<forall>r \<in> set t. \<not> (c_group_id r = g \<and> c_artifact_id r = a
                \<and> c_artifact_version r = v)) \<longrightarrow>
            status (fst (handle (GetGavUpgrade g a v limit_param) w)) = 404)
       \<and> (sqlite_int64 limit \<and> fetchone (SQL_GAV_SELECT_GAV t g a v) = Some row'
            \<and> SQL_GAV_UPGRADE t (group_id (gav2item row')) (artifact_id (gav2item row'))
                 (version_seq (gav2item row')) limit = [] \<longrightarrow>
            status (fst (handle (GetGavUpgrade g a v limit_param) w)) = 204)"
proof (intro conjI impI)
  assume "fn \<notin> c_file_name ` set t"
  with assms show "status (fst (handle (GetFileUpgrade fn limit_param) w)) = 404"
    using file_upgrade_absent[of w t fn limit_param] by simp
next
  assume "sqlite_int64 limit \<and> fetchone (SQL_GAV_SELECT_FILE_NAME t fn) = Some row
            \<and> SQL_GAV_UPGRADE t (group_id (gav2item row)) (artifact_id (gav2item row))
                 (version_seq (gav2item row)) limit = []"
  with assms show "status (fst (handle (GetFileUpgrade fn limit_param) w)) = 204"
    using file_upgrade_no_newer[of w t fn limit limit_param row] by simp
next
  assume "\<forall>r \<in> set t. \<not> (c_group_id r = g \<and> c_artifact_id r = a \<and> c_artifact_version r = v)"
  with assms show "status (fst (handle (GetGavUpgrade g a v limit_param) w)) = 404"
    using gav_upgrade_absent[of w t g a v limit_param] by simp
next
  assume "sqlite_int64 limit \<and> fetchone (SQL_GAV_SELECT_GAV t g a v) = Some row'
            \<and> SQL_GAV_UPGRADE t (group_id (gav2item row')) (artifact_id (gav2item row'))
                 (version_seq (gav2item row')) limit = []"
  with assms show "status (fst (handle (GetGavUpgrade g a v limit_param) w)) = 204"
    using gav_upgrade_no_newer[of w t g a v limit limit_param row'] by simp
qed

theorem upgrade_404_204_witness:
  "status (fst (handle (GetFileUpgrade ''nope.jar'' None) example_world)) = 404
   \<and> status (fst (handle (GetFileUpgrade ''example-3.0.jar'' None) example_world)) = 204
   \<and> status (fst (handle (GetGavUpgrade ''com.example'' ''example'' ''0.9'' None) example_world)) = 404
   \<and> status (fst (handle (GetGavUpgrade ''com.example'' ''example'' ''3.0'' None) example_world)) = 204"
proof -
  let ?r3 = "SQL_SELECT_GAV (example_row ''3.0'' ''example-3.0.jar'' 9 ''2024-02-01'')"
  have d: "db example_world = Some example_table" by (simp add: example_world_def)
  have l: "1000 = (case None of None \<Rightarrow> PAGE_SIZE_BIG | Some l \<Rightarrow> l)" "1000 \<le> PAGE_SIZE_BIG"
    by (simp_all add: PAGE_SIZE_BIG_def)
  have i: "sqlite_int64 1000" by (simp add: sqlite_int64_def)
  have n: "length ''nope.jar'' \<le> MAXLEN_FILE_NAME" "length ''example-3.0.jar'' \<le> MAXLEN_FILE_NAME"
    "length ''com.example'' \<le> MAXLEN_GROUP_ID" "length ''example'' \<le> MAXLEN_ARTIFACT_ID"
    "length ''0.9'' \<le> MAXLEN_ARTIFACT_VERSION" "length ''3.0'' \<le> MAXLEN_ARTIFACT_VERSION"
    by (simp_all add: MAXLEN_FILE_NAME_def MAXLEN_GROUP_ID_def MAXLEN_ARTIFACT_ID_def
        MAXLEN_ARTIFACT_VERSION_def)
  have a1: "''nope.jar'' \<notin> c_file_name ` set example_table"
    by (simp add: example_table_def example_row_def)
  have a2: "\<forall>r \<in> set example_table. \<not> (c_group_id r = ''com.example''
      \<and> c_artifact_id r = ''example'' \<and> c_artifact_version r = ''0.9'')"
    by (simp add: example_table_def example_row_def)
  have b1: "fetchone (SQL_GAV_SELECT_FILE_NAME example_table ''example-3.0.jar'') = Some ?r3"
    by code_simp
  have b2: "fetchone (SQL_GAV_SELECT_GAV example_table ''com.example'' ''example'' ''3.0'') = Some ?r3"
    by code_simp
  have b3: "SQL_GAV_UPGRADE example_table (group_id (gav2item ?r3)) (artifact_id (gav2item ?r3))
       (version_seq (gav2item ?r3)) 1000 = []"
    by code_simp
  from upgrade_404_204[OF d l n(1) n(3) n(4) n(5), where row = ?r3 and row' = ?r3] a1 a2
  have "status (fst (handle (GetFileUpgrade ''nope.jar'' None) example_world)) = 404"
    "status (fst (handle (GetGavUpgrade ''com.example'' ''example'' ''0.9'' None) example_world)) = 404"
    by blast+
  moreover
  from upgrade_404_204[OF d l n(2) n(3) n(4) n(6), where row = ?r3 and row' = ?r3] i b1 b2 b3
  have "status (fst (handle (GetFileUpgrade ''example-3.0.jar'' None) example_world)) = 204"
    "status (fst (handle (GetGavUpgrade ''com.example'' ''example'' ''3.0'' None) example_world)) = 204"
    by blast+
  ultimately show ?thesis by blast
qed

section \<open>Connections on the exit paths\<close>

lemma open_connections_append: "open_connections (w\<lparr>conns := conns w @ [True]\<rparr>) = Suc (open_connections w)"
  by (simp add: open_connections_def)

lemma open_connections_close:
  "open_connections (connection_close \<lparr>conn_id = length (conns w), conn_table = t\<rparr>
      (w\<lparr>conns := conns w @ [True]\<rparr>)) = open_connections w"
  by (simp add: open_connections_def connection_close_def)

lemma handle_open_connections:
  "open_connections (snd (handle req w)) =
     (if status (fst (handle req w)) \<in> {200, 422, 400}
         \<or> (db w = None \<and> \<not> pragma_raises w)
      then open_connections w else Suc (open_connections w))"
  by (cases req; cases "db w")
     (auto simp add: fst_reply snd_reply root_def root_api_def gav_file_name_def gav_file_last_modified_def
      gav_def gav_coordinates_def file_upgrade_def gav_upgrade_def connect_None connect_Some
      newer_versions_def open_connections_append open_connections_close Let_def split: option.splits)

text \<open>
  Claim C1 says that every handler that opens a connection closes it on every exit path,
  the error responses included. The handlers close the connection on the path that
  returns only: \<open>handle_open_connections\<close> above counts one more open connection after
  every response that is raised once a connection is open. Evaluated on
  the example dataset: the 404 of \<^verbatim>\<open>/api/file\<close> for a missing file and the 204 of
  \<^verbatim>\<open>/api/fileupgrade\<close> for the latest version each leave one connection open, where the
  200 of \<^verbatim>\<open>/api/file\<close> leaves none.
\<close>

theorem error_paths_leave_connection_open:
  "open_connections example_world = 0
   \<and> fst (handle (GetFile ''missing.jar'') example_world) =
        Response 404 (Detail ''File missing.jar not found'')
   \<and> open_connections (snd (handle (GetFile ''missing.jar'') example_world)) = 1
   \<and> fst (handle (GetFileUpgrade ''example-3.0.jar'' None) example_world) =
        Response 204 NoBody
   \<and> open_connections (snd (handle (GetFileUpgrade ''example-3.0.jar'' None) example_world)) = 1
   \<and> status (fst (handle (GetFile ''example-1.0.jar'') example_world)) = 200
   \<and> open_connections (snd (handle (GetFile ''example-1.0.jar'') example_world)) = 0"
  by code_simp

text \<open>
  The 503 of \<open>connect\<close> itself leaves a connection open when the file opened and a
  PRAGMA raised.
\<close>

lemma pragma_failure_leaves_connection_open:
  "status (fst (handle (GetFile ''example-1.0.jar'') locked_world)) = 503
   \<and> open_connections locked_world = 0
   \<and> open_connections (snd (handle (GetFile ''example-1.0.jar'') locked_world)) = 1"
  by code_simp

section \<open>The last-modified route when nothing matches\<close>

lemma select_last_modified_one_row:
  "SQL_GAV_SELECT_FILE_LAST_MODIFIED t pat =
     [sql_max (map c_last_modified (filter (\<lambda>r. sql_like pat (c_file_name r)) t))]"
  by (simp add: SQL_GAV_SELECT_FILE_LAST_MODIFIED_def sql_limit_1)

lemma gav_file_last_modified_never_404:
  "status (fst (handle (GetFileLastModified fn) w)) \<noteq> 404"
  by (cases "db w")
     (simp_all add: fst_reply gav_file_last_modified_def connect_None connect_Some
       select_last_modified_one_row fetchone_def Let_def split: option.splits)

text \<open>
  Claim C2 says that \<^verbatim>\<open>GET /api/filelastmodified/{file_name}\<close> answers 404 when the name
  without its extension is not empty and no stored file name starts with it. The
  aggregate query always returns one row, so the test \<^verbatim>\<open>if not row\<close> never fires
  (\<open>gav_file_last_modified_never_404\<close> above); the row holds NULL, building the response
  model fails, and the response is 500. Evaluated for \<^verbatim>\<open>doesnotexist\<close> on the example
  dataset.
\<close>

theorem last_modified_no_match_is_500:
  "fst (splitext ''doesnotexist'') = ''doesnotexist''
   \<and> filter (\<lambda>r. prefix ''doesnotexist'' (c_file_name r)) example_table = []
   \<and> fst (handle (GetFileLastModified ''doesnotexist'') example_world) =
        Response 500 (Detail ''Internal Server Error'')"
  by code_simp

section \<open>The paginated list\<close>

lemma gav_negative_limit:
  assumes "db w = Some t" "t \<noteq> []" "l < 0" "sqlite_int64 l"
  shows "fst (handle (GetGav None (Some l)) w) =
           Response 200 (Items (map gav2item (map SQL_SELECT_GAV t)))"
  using assms
  by (simp add: fst_reply gav_def connect_Some SQL_GAV_SELECT_ALL_def sql_limit_def
      sql_offset_def PAGE_SIZE_def sqlite_int64_def Let_def)

text \<open>
  Claim C3 says that \<^verbatim>\<open>GET /api/gav\<close> with the requested limit \<open>L\<close> returns at most
  \<open>min L 100\<close> rows. The signature bounds the limit from above only, and SQLite reads a
  negative limit as no limit: with \<^verbatim>\<open>limit=-1\<close> on a table of 101 rows the response
  holds all 101.
\<close>

theorem gav_negative_limit_unbounded:
  "fst (handle (GetGav None (Some (- 1))) page_world) =
     Response 200 (Items (map gav2item (map SQL_SELECT_GAV page_table)))
   \<and> length (map gav2item (map SQL_SELECT_GAV page_table)) = 101
   \<and> \<not> (101 \<le> min (- 1) PAGE_SIZE)"
proof -
  have "db page_world = Some page_table" by (simp add: page_world_def)
  moreover have "page_table \<noteq> []" by (simp add: page_table_def)
  moreover have "sqlite_int64 (- 1)" by (simp add: sqlite_int64_def)
  ultimately have "fst (handle (GetGav None (Some (- 1))) page_world) =
     Response 200 (Items (map gav2item (map SQL_SELECT_GAV page_table)))"
    using gav_negative_limit[of page_world page_table "- 1"] by simp
  moreover have "length (map gav2item (map SQL_SELECT_GAV page_table)) = 101"
    by (simp add: page_table_def)
  moreover have "\<not> (101 \<le> min (- 1) PAGE_SIZE)" by (simp add: PAGE_SIZE_def)
  ultimately show ?thesis by blast
qed

text \<open>
  Claim C4 says that \<^verbatim>\<open>GET /api/gav\<close> rejects a negative \<^verbatim>\<open>skip\<close>. It does not:
  \<^verbatim>\<open>skip=-1\<close> on the example dataset is not rejected and gets the response 200.
\<close>

theorem negative_skip_accepted:
  "(- 1 :: int) < 0
   \<and> fst (gav (Some (- 1)) None example_world) \<noteq> Inl RequestValidationError
   \<and> status (fst (handle (GetGav (Some (- 1)) None) example_world)) = 200"
  by code_simp

lemma gav_skip_default: "gav (Some 0) limit_param w = gav None limit_param w"
  by (simp add: gav_def)

lemma gav_negative_skip:
  "s < 0 \<Longrightarrow> sqlite_int64 s \<Longrightarrow> gav (Some s) limit_param w = gav None limit_param w"
  by (cases "db w")
     (simp_all add: gav_def connect_None connect_Some SQL_GAV_SELECT_ALL_def sql_offset_def
       sqlite_int64_def Let_def)

lemma gav_rejected_iff:
  "fst (gav skip_param limit_param w) = Inl RequestValidationError
     \<longleftrightarrow> (\<exists>l. limit_param = Some l \<and> PAGE_SIZE < l)"
  by (cases "db w"; cases limit_param)
     (auto simp: gav_def connect_None connect_Some Let_def)

lemma gav_422_iff:
  "status (fst (handle (GetGav skip_param limit_param) w)) = 422
     \<longleftrightarrow> (\<exists>l. limit_param = Some l \<and> PAGE_SIZE < l)"
  by (cases "db w"; cases limit_param)
     (auto simp: fst_reply gav_def connect_None connect_Some Let_def)

text \<open>
  Claim C4 as amended. \<^verbatim>\<open>GET /api/gav\<close> puts no constraint on \<^verbatim>\<open>skip\<close>: the request is
  rejected (422) exactly when \<^verbatim>\<open>limit\<close> exceeds 100, whatever \<^verbatim>\<open>skip\<close> is; an omitted
  \<^verbatim>\<open>skip\<close> is 0; and a negative \<^verbatim>\<open>skip\<close> in the 64-bit range gets the response and
  leaves the world of \<^verbatim>\<open>skip=0\<close>.
\<close>

theorem gav_skip_unconstrained:
  "(status (fst (handle (GetGav skip_param limit_param) w)) = 422
      \<longleftrightarrow> (\<exists>l. limit_param = Some l \<and> PAGE_SIZE < l))
   \<and> handle (GetGav (Some 0) limit_param) w = handle (GetGav None limit_param) w
   \<and> (s < 0 \<and> sqlite_int64 s \<longrightarrow>
        handle (GetGav (Some s) limit_param) w = handle (GetGav None limit_param) w)"
  using gav_422_iff[of skip_param limit_param w] gav_skip_default[of limit_param w]
    gav_negative_skip[of s limit_param w]
  by simp

theorem gav_skip_unconstrained_witness:
  "(- 5 :: int) < 0 \<and> sqlite_int64 (- 5)
   \<and> status (fst (handle (GetGav (Some (- 5)) (Some 2)) example_world)) \<noteq> 422
   \<and> handle (GetGav (Some (- 5)) (Some 2)) example_world =
       handle (GetGav None (Some 2)) example_world"
proof -
  have i: "sqlite_int64 (- 5)" by (simp add: sqlite_int64_def)
  have n: "\<not> (\<exists>l. Some (2::int) = Some l \<and> PAGE_SIZE < l)" by (simp add: PAGE_SIZE_def)
  have lt: "(- 5 :: int) < 0" by simp
  note T = gav_skip_unconstrained[of "Some (- 5)" "Some 2" example_world "- 5"]
  from T n have a: "status (fst (handle (GetGav (Some (- 5)) (Some 2)) example_world)) \<noteq> 422"
    by blast
  from T lt i have b: "handle (GetGav (Some (- 5)) (Some 2)) example_world =
       handle (GetGav None (Some 2)) example_world"
    by blast
  from lt i a b show ?thesis by blast
qed

section \<open>The last-modified route over the matching rows\<close>

text \<open>
  The name without its extension is empty for the empty name only: leading dots are part
  of the name.
\<close>

lemma rfind_ge: "- 1 \<le> rfind p c"
  by (induction p) auto

lemma splitext_loop_nonempty:
  "0 \<le> i \<Longrightarrow> p \<noteq> [] \<Longrightarrow> fst (splitext_loop p i d) \<noteq> []"
proof (induction p i d rule: splitext_loop.induct)
  case (1 p filenameIndex dotIndex)
  show ?case
  proof (cases "filenameIndex < dotIndex")
    case True
    note lt = this
    show ?thesis
    proof (cases "take 1 (drop (nat filenameIndex) p) \<noteq> ''.''")
      case True
      with lt 1(2,3) show ?thesis
        by (subst splitext_loop.simps) (simp add: take_eq_Nil)
    next
      case False
      with lt 1 show ?thesis
        by (subst splitext_loop.simps) simp
    qed
  next
    case False
    with 1 show ?thesis by (subst splitext_loop.simps) simp
  qed
qed

lemma splitext_root_empty: "fst (splitext p) = [] \<longleftrightarrow> p = []"
proof
  assume e: "fst (splitext p) = []"
  show "p = []"
  proof (rule ccontr)
    assume "p \<noteq> []"
    moreover have "0 \<le> rfind p CHR ''/'' + 1" using rfind_ge[of p "CHR ''/''"] by simp
    ultimately have "fst (splitext p) \<noteq> []"
      by (simp add: splitext_def Let_def splitext_loop_nonempty)
    with e show False by simp
  qed
next
  assume "p = []"
  then show "fst (splitext p) = []" by (simp add: splitext_def)
qed

lemma sql_max_nonempty:
  assumes "xs \<noteq> []"
  shows "sql_max xs = Some (Max (set xs))"
proof (cases xs)
  case Nil
  with assms show ?thesis by simp
next
  case (Cons a list)
  then show ?thesis
    using Max.set_eq_fold[of a list] by (simp add: sql_max_def)
qed

lemma sql_like_percent: "sql_like ''%'' s"
  by (induction s) auto

lemma sql_like_prefix:
  "CHR ''%'' \<notin> set stem \<Longrightarrow> CHR ''_'' \<notin> set stem \<Longrightarrow>
   sql_like (stem @ ''%'') s \<longleftrightarrow> prefix (map sqlite_tolower stem) (map sqlite_tolower s)"
proof (induction stem arbitrary: s)
  case Nil
  then show ?case by (simp add: sql_like_percent)
next
  case (Cons p ps)
  then show ?case by (cases s) auto
qed

lemma gav_file_last_modified_found:
  assumes "db w = Some t" "length fn \<le> MAXLEN_FILE_NAME" "fst (splitext fn) \<noteq> []"
    and "filter (\<lambda>r. sql_like (fst (splitext fn) @ ''%'') (c_file_name r)) t \<noteq> []"
  shows "fst (handle (GetFileLastModified fn) w) =
     Response 200 (LastModified (ModelLastModified (Max (c_last_modified `
        set (filter (\<lambda>r. sql_like (fst (splitext fn) @ ''%'') (c_file_name r)) t)))))"
proof -
  let ?rows = "filter (\<lambda>r. sql_like (fst (splitext fn) @ ''%'') (c_file_name r)) t"
  have "sql_max (map c_last_modified ?rows) = Some (Max (c_last_modified ` set ?rows))"
    using assms(4) sql_max_nonempty[of "map c_last_modified ?rows"] by simp
  with assms(1-3) show ?thesis
    by (simp add: fst_reply gav_file_last_modified_def connect_Some
        select_last_modified_one_row fetchone_def Let_def)
qed

text \<open>
  Claim C7 says that the route returns the maximum \<^verbatim>\<open>last_modified\<close> over exactly the
  rows whose file name starts with the name without its extension. The handler builds
  the prefix pattern, that name followed by \<^verbatim>\<open>%\<close>, and passes it to \<^verbatim>\<open>LIKE\<close> without
  escaping the name, so an underscore in the name stands for any character: asked for
  \<^verbatim>\<open>akka_2.13-1.0.jar\<close>, the route returns the date of \<^verbatim>\<open>akka-2.13-1.0.jar\<close>, which is
  later than the date of the one row whose name starts with \<^verbatim>\<open>akka_2.13-1.0\<close>.
\<close>

theorem last_modified_like_not_prefix:
  "fst (splitext ''akka_2.13-1.0.jar'') = ''akka_2.13-1.0''
   \<and> map c_last_modified (filter (\<lambda>r. prefix ''akka_2.13-1.0'' (c_file_name r)) like_table)
        = [''2020-01-01'']
   \<and> fst (handle (GetFileLastModified ''akka_2.13-1.0.jar'') like_world) =
        Response 200 (LastModified (ModelLastModified ''2022-01-01''))"
  by code_simp

text \<open>
  The same slip with the other wildcard and with the case of the letters: asked for
  \<^verbatim>\<open>%.jar\<close> the route returns the maximum over the whole table, and asked for
  \<^verbatim>\<open>EXAMPLE-2.0.JAR\<close> it returns the date of \<^verbatim>\<open>example-2.0.jar\<close>, though no stored name
  starts with \<^verbatim>\<open>%\<close> or with \<^verbatim>\<open>EXAMPLE-2.0\<close>.
\<close>

lemma last_modified_like_wildcards:
  "fst (splitext ''%.jar'') = ''%''
   \<and> filter (\<lambda>r. prefix ''%'' (c_file_name r)) example_table = []
   \<and> fst (handle (GetFileLastModified ''%.jar'') example_world) =
        Response 200 (LastModified (ModelLastModified ''2024-03-01''))
   \<and> fst (splitext ''EXAMPLE-2.0.JAR'') = ''EXAMPLE-2.0''
   \<and> filter (\<lambda>r. prefix ''EXAMPLE-2.0'' (c_file_name r)) example_table = []
   \<and> fst (handle (GetFileLastModified ''EXAMPLE-2.0.JAR'') example_world) =
        Response 200 (LastModified (ModelLastModified ''2024-01-01''))"
  by code_simp

text \<open>
  What the route computes in general. For a request that keeps the declared
  \<^verbatim>\<open>max_length\<close> and a database that can be opened, let \<open>stem\<close> be the name without its
  final extension, not empty, and \<open>rows\<close> the stored rows whose file name matches the
  \<^verbatim>\<open>LIKE\<close> pattern \<open>stem\<close> followed by \<^verbatim>\<open>%\<close>. If there is such a row, the response is 200
  with the maximum \<^verbatim>\<open>last_modified\<close> over \<open>rows\<close>. When \<open>stem\<close> holds neither \<^verbatim>\<open>%\<close>
  nor \<^verbatim>\<open>_\<close>, these are the rows whose file name starts with \<open>stem\<close> up to the case of
  the letters A to Z.
\<close>

lemma last_modified_like:
  assumes "db w = Some t" "length fn \<le> MAXLEN_FILE_NAME"
    and "stem = fst (splitext fn)" "stem \<noteq> []"
    and "rows = filter (\<lambda>r. sql_like (stem @ ''%'') (c_file_name r)) t" "rows \<noteq> []"
  shows "fst (handle (GetFileLastModified fn) w) =
           Response 200 (LastModified (ModelLastModified (Max (c_last_modified ` set rows))))
       \<and> (CHR ''%'' \<notin> set stem \<and> CHR ''_'' \<notin> set stem \<longrightarrow>
            rows = filter (\<lambda>r. prefix (map sqlite_tolower stem)
                                  (map sqlite_tolower (c_file_name r))) t)"
proof -
  have "rows = filter (\<lambda>r. prefix (map sqlite_tolower stem)
                                  (map sqlite_tolower (c_file_name r))) t"
    if "CHR ''%'' \<notin> set stem \<and> CHR ''_'' \<notin> set stem"
    using that assms(5) by (simp add: sql_like_prefix)
  moreover have "fst (handle (GetFileLastModified fn) w) =
           Response 200 (LastModified (ModelLastModified (Max (c_last_modified ` set rows))))"
    using assms gav_file_last_modified_found[of w t fn] by simp
  ultimately show ?thesis by blast
qed

lemma last_modified_like_example:
  "db example_world = Some example_table
   \<and> length ''example-3.0.jar'' \<le> MAXLEN_FILE_NAME
   \<and> ''example-3.0'' = fst (splitext ''example-3.0.jar'')
   \<and> [example_row ''3.0'' ''example-3.0.jar'' 9 ''2024-02-01'',
       example_row ''3.0'' ''example-3.0-sources.jar'' 9 ''2024-03-01'']
       = filter (\<lambda>r. sql_like (''example-3.0'' @ ''%'') (c_file_name r)) example_table
   \<and> CHR ''%'' \<notin> set ''example-3.0'' \<and> CHR ''_'' \<notin> set ''example-3.0''
   \<and> fst (handle (GetFileLastModified ''example-3.0.jar'') example_world) =
        Response 200 (LastModified (ModelLastModified ''2024-03-01''))
   \<and> [example_row ''3.0'' ''example-3.0.jar'' 9 ''2024-02-01'',
       example_row ''3.0'' ''example-3.0-sources.jar'' 9 ''2024-03-01'']
       = filter (\<lambda>r. prefix (map sqlite_tolower ''example-3.0'')
                                  (map sqlite_tolower (c_file_name r))) example_table"
proof -
  let ?rows = "[example_row ''3.0'' ''example-3.0.jar'' 9 ''2024-02-01'',
       example_row ''3.0'' ''example-3.0-sources.jar'' 9 ''2024-03-01'']"
  have d: "db example_world = Some example_table" by (simp add: example_world_def)
  have l: "length ''example-3.0.jar'' \<le> MAXLEN_FILE_NAME" by (simp add: MAXLEN_FILE_NAME_def)
  have s: "''example-3.0'' = fst (splitext ''example-3.0.jar'')" by code_simp
  have n: "''example-3.0'' \<noteq> []" by simp
  have r: "?rows = filter (\<lambda>r. sql_like (''example-3.0'' @ ''%'') (c_file_name r)) example_table"
    by code_simp
  have rn: "?rows \<noteq> []" by simp
  have c: "CHR ''%'' \<notin> set ''example-3.0''" "CHR ''_'' \<notin> set ''example-3.0''" by simp_all
  have m: "Max (c_last_modified ` set ?rows) = ''2024-03-01''"
    by code_simp
  note T = last_modified_like[OF d l s n r rn]
  have a: "fst (handle (GetFileLastModified ''example-3.0.jar'') example_world) =
        Response 200 (LastModified (ModelLastModified ''2024-03-01''))"
    using T[THEN conjunct1] by (simp only: m)
  from T[THEN conjunct2] c have b: "?rows = filter (\<lambda>r. prefix (map sqlite_tolower ''example-3.0'')
                                  (map sqlite_tolower (c_file_name r))) example_table"
    by blast
  from d l s r c a b show ?thesis by blast
qed

section \<open>The query for newer versions\<close>

lemma max_row_mem: "max_row r rs \<in> set (r # rs)"
  unfolding max_row_def by (induction rs arbitrary: r) auto

lemma max_row_last_modified_fold:
  "c_last_modified (max_row r rs) = fold max (map c_last_modified rs) (c_last_modified r)"
  unfolding max_row_def
proof (induction rs arbitrary: r)
  case Nil
  then show ?case by simp
next
  case (Cons x xs)
  let ?f = "\<lambda>x best. if c_last_modified best < c_last_modified x then x else best"
  have step: "c_last_modified (?f x r) = max (c_last_modified x) (c_last_modified r)"
    by (auto simp: max_def)
  have "c_last_modified (fold ?f (x # xs) r) = c_last_modified (fold ?f xs (?f x r))"
    by simp
  also have "\<dots> = fold max (map c_last_modified xs) (c_last_modified (?f x r))"
    by (rule Cons.IH)
  also have "\<dots> = fold max (map c_last_modified (x # xs)) (c_last_modified r)"
    by (simp only: step list.map fold_simps)
  finally show ?case .
qed

lemma max_row_last_modified:
  "c_last_modified (max_row r rs) = Max (c_last_modified ` set (r # rs))"
  using Max.set_eq_fold[of "c_last_modified r" "map c_last_modified rs"]
  by (simp add: max_row_last_modified_fold)

lemma group_row_elem:
  assumes "x \<in> set (group_row rows k)"
  shows "fst x = k \<and> (\<exists>r \<in> set rows. c_artifact_version r = k
           \<and> c_last_modified r = fst (snd x) \<and> c_version_seq r = snd (snd x))
       \<and> fst (snd x) = Max (c_last_modified ` set (filter (\<lambda>r. c_artifact_version r = k) rows))"
proof (cases "filter (\<lambda>r. c_artifact_version r = k) rows")
  case Nil
  with assms show ?thesis by (simp add: group_row_def)
next
  case (Cons r rs)
  let ?b = "max_row r rs"
  from assms Cons have x: "x = (k, c_last_modified ?b, c_version_seq ?b)"
    by (simp add: group_row_def)
  have "?b \<in> set (filter (\<lambda>r. c_artifact_version r = k) rows)"
    using max_row_mem[of r rs] Cons by simp
  then have b: "?b \<in> set rows" "c_artifact_version ?b = k" by auto
  have m: "c_last_modified ?b = Max (c_last_modified ` set (filter (\<lambda>r. c_artifact_version r = k) rows))"
    using max_row_last_modified[of r rs] Cons by simp
  from x b m show ?thesis by auto
qed

lemma group_row_key:
  "k \<in> c_artifact_version ` set rows \<Longrightarrow> map fst (group_row rows k) = [k]"
  by (cases "filter (\<lambda>r. c_artifact_version r = k) rows")
     (auto simp: group_row_def filter_empty_conv)

lemma group_keys:
  "set ks \<subseteq> c_artifact_version ` set rows \<Longrightarrow>
   map fst (concat (map (group_row rows) ks)) = ks"
  by (induction ks) (simp_all add: group_row_key)

lemma group_by_keys:
  "map fst (group_by_artifact_version rows) = sort (remdups (map c_artifact_version rows))"
  unfolding group_by_artifact_version_def by (rule group_keys) simp

lemma group_by_distinct: "distinct (map fst (group_by_artifact_version rows))"
  by (simp add: group_by_keys)

lemma group_by_elem:
  assumes "x \<in> set (group_by_artifact_version rows)"
  shows "(\<exists>r \<in> set rows. c_artifact_version r = fst x
           \<and> c_last_modified r = fst (snd x) \<and> c_version_seq r = snd (snd x))
       \<and> fst (snd x) =
           Max (c_last_modified ` set (filter (\<lambda>r. c_artifact_version r = fst x) rows))"
proof -
  from assms obtain k where "x \<in> set (group_row rows k)"
    by (auto simp: group_by_artifact_version_def)
  from group_row_elem[OF this] show ?thesis by auto
qed

lemma sql_distinct_id:
  "distinct (map f xs) \<Longrightarrow> set (map f xs) \<inter> set seen = {} \<Longrightarrow> sql_distinct f seen xs = xs"
  by (induction xs arbitrary: seen) auto

lemma distinct_upgrade_columns:
  assumes "distinct (map fst xs)"
  shows "distinct (map upgrade_columns xs)"
proof -
  from assms have d: "distinct xs" and i: "inj_on fst (set xs)"
    by (simp_all add: distinct_map)
  have "inj_on upgrade_columns (set xs)"
  proof (rule inj_onI)
    fix x y assume "x \<in> set xs" "y \<in> set xs" "upgrade_columns x = upgrade_columns y"
    then have "fst x = fst y" by (simp add: upgrade_columns_def)
    with i \<open>x \<in> set xs\<close> \<open>y \<in> set xs\<close> show "x = y" by (auto dest: inj_onD)
  qed
  with d show ?thesis by (simp add: distinct_map)
qed

lemma upgrade_ordered_eq:
  "SQL_GAV_UPGRADE_ordered t g a n =
     sort_key upgrade_order_key (group_by_artifact_version (filter (upgrade_where g a n) t))"
  by (simp add: SQL_GAV_UPGRADE_ordered_def sql_distinct_id distinct_upgrade_columns
      group_by_distinct)

lemma upgrade_ordered_distinct: "distinct (map fst (SQL_GAV_UPGRADE_ordered t g a n))"
proof -
  let ?gs = "group_by_artifact_version (filter (upgrade_where g a n) t)"
  have "distinct ?gs" "inj_on fst (set ?gs)"
    using group_by_distinct[of "filter (upgrade_where g a n) t"] by (simp_all add: distinct_map)
  then show ?thesis by (simp add: upgrade_ordered_eq distinct_map)
qed

lemma upgrade_ordered_sorted: "sorted (map upgrade_order_key (SQL_GAV_UPGRADE_ordered t g a n))"
  by (simp add: upgrade_ordered_eq)

lemma sql_limit_take: "\<exists>m. sql_limit lim xs = take m xs"
proof (cases "lim < 0")
  case True
  then have "sql_limit lim xs = take (length xs) xs" by (simp add: sql_limit_def)
  then show ?thesis ..
next
  case False
  then have "sql_limit lim xs = take (nat lim) xs" by (simp add: sql_limit_def)
  then show ?thesis ..
qed

lemma upgrade_ordered_elem:
  assumes "x \<in> set (SQL_GAV_UPGRADE_ordered t g a n)"
  shows "(\<exists>r \<in> set t. c_group_id r = g \<and> c_artifact_id r = a \<and> n < c_version_seq r
            \<and> c_artifact_version r = fst x \<and> c_last_modified r = fst (snd x)
            \<and> c_version_seq r = snd (snd x))
       \<and> fst (snd x) = Max (c_last_modified `
              {r \<in> set t. upgrade_where g a n r \<and> c_artifact_version r = fst x})"
proof -
  let ?rows = "filter (upgrade_where g a n) t"
  from assms have "x \<in> set (group_by_artifact_version ?rows)"
    by (simp add: upgrade_ordered_eq)
  from group_by_elem[OF this] obtain r where
    r: "r \<in> set ?rows" "c_artifact_version r = fst x" "c_last_modified r = fst (snd x)"
       "c_version_seq r = snd (snd x)"
    and m: "fst (snd x) = Max (c_last_modified ` set (filter (\<lambda>r. c_artifact_version r = fst x) ?rows))"
    by blast
  have "set (filter (\<lambda>r. c_artifact_version r = fst x) ?rows) =
          {r \<in> set t. upgrade_where g a n r \<and> c_artifact_version r = fst x}"
    by auto
  with m have m': "fst (snd x) = Max (c_last_modified `
              {r \<in> set t. upgrade_where g a n r \<and> c_artifact_version r = fst x})"
    by simp
  from r(1) have "r \<in> set t" "c_group_id r = g" "c_artifact_id r = a" "n < c_version_seq r"
    by (auto simp: upgrade_where_def)
  with r m' show ?thesis by blast
qed

text \<open>
  Claim C5 says that the query for newer versions returns the newer versions of the
  group and artifact, one row per version, in ascending order of \<^verbatim>\<open>version_seq\<close>, and
  never more than \<^verbatim>\<open>limit\<close> rows, for every limit. The two upgrade routes declare the cap
  of 1000 on the limit and no lower bound, as the list route does with its cap of 100, and
  SQLite reads a negative limit as no limit: the limit \<open>-1\<close> passes the signature, the
  query returns the two newer versions of the example dataset, and \<^verbatim>\<open>/api/fileupgrade\<close>
  answers with both.
\<close>

theorem newer_versions_negative_limit:
  "SQL_GAV_UPGRADE example_table ''com.example'' ''example'' 5 (- 1) =
     [(''2.0'', ''2024-01-01''), (''3.0'', ''2024-03-01'')]
   \<and> \<not> int (length (SQL_GAV_UPGRADE example_table ''com.example'' ''example'' 5 (- 1))) \<le> - 1
   \<and> fst (handle (GetFileUpgrade ''example-1.0.jar'' (Some (- 1))) example_world) =
       Response 200 (Upgrades [ModelUpgrade ''2.0'' ''2024-01-01'',
                               ModelUpgrade ''3.0'' ''2024-03-01''])"
  by code_simp

text \<open>
  What the query returns in general. For every group, artifact, sequence number \<open>n\<close>
  and limit, each returned row comes from a stored row of that group and artifact whose
  \<^verbatim>\<open>version_seq\<close> is greater than \<open>n\<close>: it holds the version of that row and its
  \<^verbatim>\<open>last_modified\<close>, which is the maximum over the stored rows of that version that pass
  the \<^verbatim>\<open>WHERE\<close> clause. No version occurs twice in the result, the rows are in ascending
  order of the \<^verbatim>\<open>version_seq\<close> of the stored rows they come from, and for a limit that is
  not negative there are at most \<^verbatim>\<open>limit\<close> of them; for a negative limit there is one row
  for every newer version. \<open>keyed\<close> is the result with the sort key beside the two
  result columns.
\<close>

lemma newer_versions_query:
  assumes "keyed = sql_limit lim (SQL_GAV_UPGRADE_ordered t g a n)"
  shows "SQL_GAV_UPGRADE t g a n lim = map upgrade_columns keyed
       \<and> (\<forall>x \<in> set keyed. \<exists>r \<in> set t.
             c_group_id r = g \<and> c_artifact_id r = a \<and> n < c_version_seq r
             \<and> c_artifact_version r = fst x \<and> c_last_modified r = fst (snd x)
             \<and> c_version_seq r = snd (snd x)
             \<and> fst (snd x) = Max (c_last_modified `
                  {r' \<in> set t. upgrade_where g a n r' \<and> c_artifact_version r' = fst x}))
       \<and> distinct (map fst (SQL_GAV_UPGRADE t g a n lim))
       \<and> sorted (map upgrade_order_key keyed)
       \<and> (0 \<le> lim \<longrightarrow> length (SQL_GAV_UPGRADE t g a n lim) \<le> nat lim)"
proof -
  let ?o = "SQL_GAV_UPGRADE_ordered t g a n"
  obtain m where k: "keyed = take m ?o"
    using assms sql_limit_take[of lim ?o] by auto
  have e: "SQL_GAV_UPGRADE t g a n lim = map upgrade_columns keyed"
    by (simp add: SQL_GAV_UPGRADE_def assms)
  have el: "\<exists>r \<in> set t.
             c_group_id r = g \<and> c_artifact_id r = a \<and> n < c_version_seq r
             \<and> c_artifact_version r = fst x \<and> c_last_modified r = fst (snd x)
             \<and> c_version_seq r = snd (snd x)
             \<and> fst (snd x) = Max (c_last_modified `
                  {r' \<in> set t. upgrade_where g a n r' \<and> c_artifact_version r' = fst x})"
    if "x \<in> set keyed" for x
  proof -
    from that k have "x \<in> set ?o" by (auto dest: in_set_takeD)
    from upgrade_ordered_elem[OF this] show ?thesis by blast
  qed
  have mf: "map fst (map upgrade_columns keyed) = map fst keyed"
    by (simp add: upgrade_columns_def)
  have "distinct (map fst keyed)"
    using upgrade_ordered_distinct[of t g a n] by (simp add: k take_map[symmetric])
  then have d: "distinct (map fst (SQL_GAV_UPGRADE t g a n lim))"
    by (simp only: e mf)
  have s: "sorted (map upgrade_order_key keyed)"
    using upgrade_ordered_sorted[of t g a n] by (simp add: k take_map[symmetric] sorted_wrt_take)
  have l: "length (SQL_GAV_UPGRADE t g a n lim) \<le> nat lim" if "0 \<le> lim"
    using that sql_limit_length[of lim ?o] by (simp add: e assms)
  from e el d s l show ?thesis by blast
qed

text \<open>
  With a negative limit the query returns every newer version: as many rows as the group
  and artifact have versions above \<open>n\<close>, whatever the cap of the route.
\<close>

lemma newer_versions_unbounded:
  assumes "lim < 0"
  shows "set (map fst (SQL_GAV_UPGRADE t g a n lim)) =
           c_artifact_version ` {r \<in> set t. upgrade_where g a n r}
       \<and> length (SQL_GAV_UPGRADE t g a n lim) =
           card (c_artifact_version ` {r \<in> set t. upgrade_where g a n r})"
proof -
  let ?rows = "filter (upgrade_where g a n) t"
  let ?gs = "group_by_artifact_version ?rows"
  have r: "set ?rows = {r \<in> set t. upgrade_where g a n r}" by auto
  have e: "SQL_GAV_UPGRADE t g a n lim = map upgrade_columns (sort_key upgrade_order_key ?gs)"
    using assms by (simp add: SQL_GAV_UPGRADE_def sql_limit_def upgrade_ordered_eq)
  have f: "map fst (map upgrade_columns xs) = map fst xs" for xs :: "(string \<times> string \<times> int) list"
    by (simp add: upgrade_columns_def)
  have "set (map fst (SQL_GAV_UPGRADE t g a n lim)) = fst ` set ?gs"
    by (simp only: e f) simp
  also have "\<dots> = set (map fst ?gs)" by simp
  also have "\<dots> = c_artifact_version ` set ?rows"
    by (simp only: group_by_keys) simp
  finally have s: "set (map fst (SQL_GAV_UPGRADE t g a n lim)) =
      c_artifact_version ` {r \<in> set t. upgrade_where g a n r}"
    by (simp only: r)
  have "length (SQL_GAV_UPGRADE t g a n lim) = length (map fst ?gs)"
    by (simp add: e)
  also have "\<dots> = length (remdups (map c_artifact_version ?rows))"
    by (simp only: group_by_keys length_sort)
  also have "\<dots> = card (c_artifact_version ` set ?rows)"
    by (simp add: length_remdups_card_conv)
  finally have l: "length (SQL_GAV_UPGRADE t g a n lim) =
      card (c_artifact_version ` {r \<in> set t. upgrade_where g a n r})"
    by (simp only: r)
  from s l show ?thesis by blast
qed

lemma newer_versions_query_example:
  "[(''2.0'', ''2024-01-01'', 8), (''3.0'', ''2024-03-01'', 9)] =
      sql_limit 2 (SQL_GAV_UPGRADE_ordered example_table ''com.example'' ''example'' 5)
   \<and> (0::int) \<le> 2
   \<and> SQL_GAV_UPGRADE example_table ''com.example'' ''example'' 5 2 =
        [(''2.0'', ''2024-01-01''), (''3.0'', ''2024-03-01'')]
   \<and> (\<exists>r \<in> set example_table. c_group_id r = ''com.example'' \<and> c_artifact_id r = ''example''
         \<and> 5 < c_version_seq r \<and> c_artifact_version r = ''3.0''
         \<and> c_last_modified r = ''2024-03-01'' \<and> c_version_seq r = 9)
   \<and> distinct (map fst (SQL_GAV_UPGRADE example_table ''com.example'' ''example'' 5 2))
   \<and> sorted (map upgrade_order_key [(''2.0'', ''2024-01-01'', 8), (''3.0'', ''2024-03-01'', 9)])
   \<and> length (SQL_GAV_UPGRADE example_table ''com.example'' ''example'' 5 2) \<le> nat 2"
proof -
  let ?keyed = "[(''2.0'', ''2024-01-01'', 8::int), (''3.0'', ''2024-03-01'', 9)]"
  have k: "?keyed = sql_limit 2 (SQL_GAV_UPGRADE_ordered example_table ''com.example'' ''example'' 5)"
    by code_simp
  have z: "(0::int) \<le> 2" by simp
  note T = newer_versions_query[OF k]
  from T have e: "SQL_GAV_UPGRADE example_table ''com.example'' ''example'' 5 2 =
      map upgrade_columns ?keyed"
    by blast
  then have e': "SQL_GAV_UPGRADE example_table ''com.example'' ''example'' 5 2 =
        [(''2.0'', ''2024-01-01''), (''3.0'', ''2024-03-01'')]"
    by (simp add: upgrade_columns_def)
  from T have "\<forall>x \<in> set ?keyed. \<exists>r \<in> set example_table.
             c_group_id r = ''com.example'' \<and> c_artifact_id r = ''example'' \<and> 5 < c_version_seq r
             \<and> c_artifact_version r = fst x \<and> c_last_modified r = fst (snd x)
             \<and> c_version_seq r = snd (snd x)"
    by blast
  then have b: "\<exists>r \<in> set example_table. c_group_id r = ''com.example''
         \<and> c_artifact_id r = ''example''
         \<and> 5 < c_version_seq r \<and> c_artifact_version r = ''3.0''
         \<and> c_last_modified r = ''2024-03-01'' \<and> c_version_seq r = 9"
    by simp
  from T have d: "distinct (map fst (SQL_GAV_UPGRADE example_table ''com.example'' ''example'' 5 2))"
    by blast
  from T have s: "sorted (map upgrade_order_key ?keyed)" by blast
  from T z have l: "length (SQL_GAV_UPGRADE example_table ''com.example'' ''example'' 5 2) \<le> nat 2"
    by blast
  from k z e' b d s l show ?thesis by blast
qed

end
